theory Spec2Isabelle
  imports Complex_Main
begin

section \<open>Python values\<close>

text \<open>
  A Python \<open>str\<close> is modelled as a \<open>string\<close>: one \<open>char\<close> stands for one code point
  below 256, so \<open>length\<close>, \<open>take\<close> and the whitespace test count code points as Python
  does on that range.

  A value returned by \<open>response.json()\<close> is a \<open>json\<close>: \<open>None\<close>, a \<open>bool\<close>, an \<open>int\<close>,
  a \<open>float\<close> (mantissa and binary exponent; the client never looks inside a number),
  a \<open>str\<close>, a \<open>list\<close> or a \<open>dict\<close> with string keys. A \<open>dict\<close> is an association list
  read by its first binding of a key.
\<close>

datatype json =
    JNull
  | JBool bool
  | JInt int
  | JFloat int int
  | JStr string
  | JArr "json list"
  | JObj "(string \<times> json) list"

definition isinstance_list :: "json \<Rightarrow> bool" where
  "isinstance_list v = (case v of JArr _ \<Rightarrow> True | _ \<Rightarrow> False)"

definition isinstance_dict :: "json \<Rightarrow> bool" where
  "isinstance_dict v = (case v of JObj _ \<Rightarrow> True | _ \<Rightarrow> False)"

text \<open>Truthiness, as \<open>not x\<close> and \<open>if x\<close> read it.\<close>

definition py_truthy :: "json \<Rightarrow> bool" where
  "py_truthy v =
     (case v of
        JNull \<Rightarrow> False
      | JBool b \<Rightarrow> b
      | JInt i \<Rightarrow> i \<noteq> 0
      | JFloat m _ \<Rightarrow> m \<noteq> 0
      | JStr s \<Rightarrow> s \<noteq> []
      | JArr xs \<Rightarrow> xs \<noteq> []
      | JObj kv \<Rightarrow> kv \<noteq> [])"

subsection \<open>Strings\<close>

text \<open>
  \<open>str.isspace\<close> on the code points below 256: the ASCII controls 9 to 13 and 28 to 31,
  the space, NEL (133) and the no-break space (160).
\<close>

definition py_isspace :: "char \<Rightarrow> bool" where
  "py_isspace c =
     (let n = (of_char c :: nat)
      in (9 \<le> n \<and> n \<le> 13) \<or> (28 \<le> n \<and> n \<le> 32) \<or> n = 133 \<or> n = 160)"

text \<open>\<open>s.strip()\<close>: whitespace removed at both ends.\<close>

definition strip :: "string \<Rightarrow> string" where
  "strip s = rev (dropWhile py_isspace (rev (dropWhile py_isspace s)))"

text \<open>\<open>sep.join(parts)\<close>.\<close>

fun join :: "string \<Rightarrow> string list \<Rightarrow> string" where
  "join sep [] = []"
| "join sep [p] = p"
| "join sep (p # q # ps) = p @ sep @ join sep (q # ps)"

definition newline :: string where
  "newline = [CHR 0x0A]"

section \<open>Errors\<close>

text \<open>
  \<open>VLLMError\<close> and its subclass \<open>VLLMTimeoutError\<close> (vllm_client.py, lines 20 to 38): the
  exception's message and the four attributes its constructor stores.
\<close>

datatype exc_type = VLLMError | VLLMTimeoutError

record vllm_error =
  exc_type :: exc_type
  message :: string
  detail :: "string option"
  backend_status_code :: "int option"
  backend_error_class :: string
  backend_latency_ms :: "int option"

text \<open>
  The constructor called with a message only: every keyword argument takes its default
  (\<open>detail=None\<close>, \<open>backend_status_code=None\<close>, \<open>backend_error_class="vllm_error"\<close>,
  \<open>backend_latency_ms=None\<close>). A call site that passes keyword arguments updates these
  fields.
\<close>

definition new_error :: "exc_type \<Rightarrow> string \<Rightarrow> vllm_error" where
  "new_error cls msg =
     \<lparr>exc_type = cls, message = msg, detail = None, backend_status_code = None,
      backend_error_class = ''vllm_error'', backend_latency_ms = None\<rparr>"

text \<open>
  What a call can raise: the client's own error, or one of the interpreter's errors that
  an unguarded attribute access or subscript raises.
\<close>

datatype exn =
    Raised vllm_error
  | AttributeError
  | TypeError
  | IndexError
  | KeyError

subsection \<open>Fallible primitives\<close>

text \<open>
  \<open>d.get(key, default)\<close>: only a \<open>dict\<close> has \<open>get\<close>; on any other value the attribute access
  raises \<open>AttributeError\<close>.
\<close>

definition get_or :: "(string \<times> json) list \<Rightarrow> string \<Rightarrow> json \<Rightarrow> json" where
  "get_or kv key dflt = (case map_of kv key of Some v \<Rightarrow> v | None \<Rightarrow> dflt)"

definition py_get :: "json \<Rightarrow> string \<Rightarrow> json \<Rightarrow> exn + json" where
  "py_get d key dflt =
     (case d of
        JObj kv \<Rightarrow> Inr (get_or kv key dflt)
      | _ \<Rightarrow> Inl AttributeError)"

text \<open>
  \<open>x[0]\<close>: the first element of a non-empty list or string, \<open>IndexError\<close> on an empty one,
  \<open>KeyError\<close> on a \<open>dict\<close> (its keys are strings), \<open>TypeError\<close> on a value that is not
  subscriptable.
\<close>

definition py_item0 :: "json \<Rightarrow> exn + json" where
  "py_item0 x =
     (case x of
        JArr xs \<Rightarrow> (case xs of [] \<Rightarrow> Inl IndexError | y # _ \<Rightarrow> Inr y)
      | JStr s \<Rightarrow> (case s of [] \<Rightarrow> Inl IndexError | c # _ \<Rightarrow> Inr (JStr [c]))
      | JObj _ \<Rightarrow> Inl KeyError
      | _ \<Rightarrow> Inl TypeError)"

section \<open>The content extractor\<close>

text \<open>
  The loop of lines 199 to 204: \<open>parts\<close> grows by the \<open>"text"\<close> of every item that is a
  \<open>dict\<close> whose \<open>"text"\<close> is a \<open>str\<close>.
\<close>

fun collect_parts :: "json list \<Rightarrow> string list \<Rightarrow> exn + string list" where
  "collect_parts [] parts = Inr parts"
| "collect_parts (item # rest) parts =
     (if isinstance_dict item then
        (case py_get item ''text'' JNull of
           Inl e \<Rightarrow> Inl e
         | Inr t \<Rightarrow>
             (case t of
                JStr s \<Rightarrow> collect_parts rest (parts @ [s])
              | _ \<Rightarrow> collect_parts rest parts))
      else collect_parts rest parts)"

text \<open>
  Lines 209 to 213: the choice's top-level \<open>"text"\<close>, trimmed when it is a \<open>str\<close>; otherwise
  the last \<open>raise\<close>.
\<close>

definition text_fallback :: "json \<Rightarrow> exn + string" where
  "text_fallback first_choice =
     (case (if isinstance_dict first_choice then py_get first_choice ''text'' JNull
            else Inr JNull) of
        Inl e \<Rightarrow> Inl e
      | Inr t \<Rightarrow>
          (case t of
             JStr s \<Rightarrow> Inr (strip s)
           | _ \<Rightarrow>
               Inl (Raised (new_error VLLMError
                 ''vLLM returned an unsupported completion content format.''))))"

text \<open>
  Lines 195 to 213, from the \<open>content\<close> that lines 191 to 193 found: a \<open>str\<close> is returned
  trimmed; a \<open>list\<close> gives its joined parts when they are not blank; everything else
  goes on to the \<open>"text"\<close> of the choice.
\<close>

definition from_content :: "json \<Rightarrow> json \<Rightarrow> exn + string" where
  "from_content first_choice content =
     (case content of
        JStr s \<Rightarrow> Inr (strip s)
      | JArr items \<Rightarrow>
          (case collect_parts items [] of
             Inl e \<Rightarrow> Inl e
           | Inr parts \<Rightarrow>
               (let combined = strip (join newline parts)
                in if combined \<noteq> [] then Inr combined else text_fallback first_choice))
      | _ \<Rightarrow> text_fallback first_choice)"

text \<open>\<open>_extract_message_content\<close> (lines 186 to 213).\<close>

definition extract_message_content :: "json \<Rightarrow> exn + string" where
  "extract_message_content result =
     (case py_get result ''choices'' (JArr []) of
        Inl e \<Rightarrow> Inl e
      | Inr choices \<Rightarrow>
          if \<not> isinstance_list choices \<or> \<not> py_truthy choices then
            Inl (Raised (new_error VLLMError
              ''vLLM response did not include any completion choices.''))
          else
            (case py_item0 choices of
               Inl e \<Rightarrow> Inl e
             | Inr c0 \<Rightarrow>
                 (let first_choice = (if isinstance_dict c0 then c0 else JObj [])
                  in case (if isinstance_dict first_choice
                           then py_get first_choice ''message'' (JObj [])
                           else Inr (JObj [])) of
                       Inl e \<Rightarrow> Inl e
                     | Inr msg \<Rightarrow>
                         (case (if isinstance_dict msg
                                then py_get msg ''content'' (JStr [])
                                else Inr (JStr [])) of
                            Inl e \<Rightarrow> Inl e
                          | Inr content \<Rightarrow> from_content first_choice content))))"

section \<open>The HTTP layer\<close>

text \<open>
  What the client reads of an \<open>httpx.Response\<close>: the status code, \<open>response.text\<close>, and
  the outcome of \<open>response.json()\<close>, which is the parsed value or a \<open>ValueError\<close> (given
  by its class name and its \<open>str\<close>).
\<close>

record response =
  status_code :: int
  resp_text :: string
  resp_json :: "(string \<times> string) + json"

subsection \<open>The error-message extractor\<close>

text \<open>
  The test \<open>isinstance(message, str) and message.strip()\<close> of lines 177 and 180, with
  the value \<open>message.strip()\<close> that the guarded \<open>return\<close> gives.
\<close>

definition nonblank_stripped :: "json \<Rightarrow> string option" where
  "nonblank_stripped v =
     (case v of
        JStr m \<Rightarrow> if strip m \<noteq> [] then Some (strip m) else None
      | _ \<Rightarrow> None)"

text \<open>\<open>_extract_error_message\<close> (lines 167 to 183).\<close>

definition extract_error_message :: "response \<Rightarrow> string" where
  "extract_error_message response =
     (case resp_json response of
        Inl _ \<Rightarrow> take 500 (resp_text response)
      | Inr payload \<Rightarrow>
          (case payload of
             JObj kv \<Rightarrow>
               (case (case get_or kv ''error'' JNull of
                        JObj ekv \<Rightarrow> nonblank_stripped (get_or ekv ''message'' JNull)
                      | _ \<Rightarrow> None) of
                  Some m \<Rightarrow> m
                | None \<Rightarrow>
                    (case nonblank_stripped (get_or kv ''message'' JNull) of
                       Some m \<Rightarrow> m
                     | None \<Rightarrow> take 500 (resp_text response)))
           | _ \<Rightarrow> take 500 (resp_text response)))"

subsection \<open>The completion call\<close>

text \<open>
  The settings the client reads. The configuration module is not among the sources, so
  the settings are a parameter; the two sampling floats are kept as mantissa and
  exponent, and the startup timeout, a number of seconds, as the rational it denotes.
\<close>

record settings =
  resolved_vllm_model_id :: string
  ocr_prompt :: string
  max_tokens :: int
  temperature :: "int \<times> int"
  top_p :: "int \<times> int"
  top_k :: int
  vllm_startup_timeout_seconds :: rat

text \<open>\<open>_build_payload\<close> (lines 103 to 119).\<close>

definition build_payload :: "settings \<Rightarrow> string \<Rightarrow> string \<Rightarrow> int \<Rightarrow> json" where
  "build_payload st prompt image_data_url max_tok =
     JObj
       [(''model'', JStr (resolved_vllm_model_id st)),
        (''messages'',
           JArr
             [JObj
                [(''role'', JStr ''user''),
                 (''content'',
                    JArr
                      [JObj [(''type'', JStr ''text''), (''text'', JStr prompt)],
                       JObj
                         [(''type'', JStr ''image_url''),
                          (''image_url'', JObj [(''url'', JStr image_data_url)])]])]]),
        (''temperature'', JFloat (fst (temperature st)) (snd (temperature st))),
        (''top_p'', JFloat (fst (top_p st)) (snd (top_p st))),
        (''max_tokens'', JInt max_tok),
        (''top_k'', JInt (top_k st))]"

text \<open>
  What \<open>self._client.post\<close> does: it raises an \<open>httpx.TimeoutException\<close>, raises another
  \<open>Exception\<close> (each given by its class name and its \<open>str\<close>), or returns a response.
\<close>

datatype post_outcome =
    PostTimeout string string
  | PostFailed string string
  | PostResponse response

text \<open>
  \<open>_chat_completion\<close> (lines 121 to 164). The transport is a parameter: for a payload it
  gives the outcome of the POST together with the latency the client measures around
  it, that is the value of \<open>int((time.perf_counter() - started) * 1000)\<close>.
\<close>

definition chat_completion :: "(json \<Rightarrow> post_outcome \<times> int) \<Rightarrow> json \<Rightarrow> exn + json" where
  "chat_completion client_post payload =
     (case client_post payload of
        (out, latency_ms) \<Rightarrow>
          (case out of
             PostTimeout cls msg \<Rightarrow>
               Inl (Raised ((new_error VLLMTimeoutError ''vLLM request timed out.'')
                 \<lparr>detail := Some msg, backend_error_class := cls,
                  backend_latency_ms := Some latency_ms\<rparr>))
           | PostFailed cls msg \<Rightarrow>
               Inl (Raised ((new_error VLLMError ''vLLM request failed.'')
                 \<lparr>detail := Some msg, backend_error_class := cls,
                  backend_latency_ms := Some latency_ms\<rparr>))
           | PostResponse response \<Rightarrow>
               if status_code response \<ge> 400 then
                 Inl (Raised ((new_error VLLMError ''vLLM returned an inference error.'')
                   \<lparr>detail := Some (extract_error_message response),
                    backend_status_code := Some (status_code response),
                    backend_error_class := ''vllm_http_error'',
                    backend_latency_ms := Some latency_ms\<rparr>))
               else
                 (case resp_json response of
                    Inl (cls, msg) \<Rightarrow>
                      Inl (Raised ((new_error VLLMError ''vLLM returned invalid JSON.'')
                        \<lparr>detail := Some msg,
                         backend_status_code := Some (status_code response),
                         backend_error_class := cls,
                         backend_latency_ms := Some latency_ms\<rparr>))
                  | Inr data \<Rightarrow> Inr data)))"

text \<open>\<open>run_ocr\<close> (lines 62 to 69).\<close>

definition run_ocr ::
  "settings \<Rightarrow> (json \<Rightarrow> post_outcome \<times> int) \<Rightarrow> string \<Rightarrow> exn + string" where
  "run_ocr st client_post image_data_url =
     (case chat_completion client_post
             (build_payload st (ocr_prompt st) image_data_url (max_tokens st)) of
        Inl e \<Rightarrow> Inl e
      | Inr response \<Rightarrow> extract_message_content response)"

section \<open>The readiness prober\<close>

text \<open>\<open>str(n)\<close> of an \<open>int\<close>, as an f-string prints a status code.\<close>

definition digit_char :: "nat \<Rightarrow> char" where
  "digit_char d = ''0123456789'' ! d"

fun digits :: "nat \<Rightarrow> string" where
  "digits n = (if n < 10 then [digit_char n] else digits (n div 10) @ [digit_char (n mod 10)])"

definition str_int :: "int \<Rightarrow> string" where
  "str_int i = (if i < 0 then CHR ''-'' # digits (nat (- i)) else digits (nat i))"

text \<open>
  What \<open>self._client.get("/v1/models")\<close> does: it returns a response, or raises an
  \<open>Exception\<close> (its class name and its \<open>str\<close>).
\<close>

datatype get_outcome = GetResponse response | GetException string string

text \<open>The two assignments to \<open>last_error\<close> (lines 88 to 93).\<close>

definition probe_error :: "get_outcome \<Rightarrow> string" where
  "probe_error out =
     (case out of
        GetResponse response \<Rightarrow>
          ''vLLM readiness probe failed with HTTP '' @ str_int (status_code response) @ '': ''
            @ take 400 (resp_text response)
      | GetException cls msg \<Rightarrow> ''vLLM readiness probe error: '' @ cls @ '': '' @ msg)"

text \<open>The \<open>raise\<close> of lines 97 to 101.\<close>

definition startup_timeout_error :: "string option \<Rightarrow> vllm_error" where
  "startup_timeout_error last_error =
     (new_error VLLMTimeoutError ''Timed out waiting for local vLLM server readiness.'')
       \<lparr>detail := last_error, backend_error_class := ''vllm_startup_timeout''\<rparr>"

text \<open>
  What the prober does to the outside world, in order: a GET of the model listing, or
  \<open>asyncio.sleep\<close> with its argument in seconds.
\<close>

datatype effect = Probe | Sleep int

text \<open>
  The loop of lines 83 to 95. A float is the rational number it denotes, so the test
  \<open>time.monotonic() < deadline\<close> is the comparison of two rationals. The clock is the
  sequence of the readings that the calls of \<open>time.monotonic()\<close> return: reading 0 is
  taken on line 80, and reading \<open>n + 1\<close> by the loop test before the attempt numbered
  \<open>n\<close> (from 0). The transport \<open>client_get\<close> gives the outcome of each attempt. Nothing
  makes the readings grow, so the loop may run forever: it returns \<open>None\<close> then, and
  otherwise its result with the effects it had.
\<close>

partial_function (option) wait_loop ::
  "(nat \<Rightarrow> rat) \<Rightarrow> (nat \<Rightarrow> get_outcome) \<Rightarrow> rat \<Rightarrow> nat \<Rightarrow> string option \<Rightarrow> effect list
     \<Rightarrow> ((exn + unit) \<times> effect list) option" where
  "wait_loop monotonic client_get deadline n last_error trace =
     (if monotonic (Suc n) < deadline then
        (case client_get n of
           GetResponse response \<Rightarrow>
             if status_code response = 200 then Some (Inr (), trace @ [Probe])
             else wait_loop monotonic client_get deadline (Suc n)
                    (Some (probe_error (client_get n))) (trace @ [Probe, Sleep 1])
         | GetException cls msg \<Rightarrow>
             wait_loop monotonic client_get deadline (Suc n)
               (Some (probe_error (client_get n))) (trace @ [Probe, Sleep 1]))
      else Some (Inl (Raised (startup_timeout_error last_error)), trace))"

text \<open>
  \<open>_wait_until_ready\<close> (lines 79 to 101). The deadline of line 80 is the float sum of
  the first clock reading and the timeout; float addition rounds, and is the
  parameter \<open>float_add\<close>.
\<close>

definition wait_until_ready ::
  "settings \<Rightarrow> (rat \<Rightarrow> rat \<Rightarrow> rat) \<Rightarrow> (nat \<Rightarrow> rat) \<Rightarrow> (nat \<Rightarrow> get_outcome)
     \<Rightarrow> ((exn + unit) \<times> effect list) option" where
  "wait_until_ready st float_add monotonic client_get =
     wait_loop monotonic client_get
       (float_add (monotonic 0) (vllm_startup_timeout_seconds st)) 0 None []"

section \<open>The image encoder\<close>

text \<open>
  \<open>str.lower\<close> on the code points below 256: the ASCII capitals and the Latin-1 capitals
  (192 to 222, without the multiplication sign 215) move up by 32.
\<close>

definition py_lower_char :: "char \<Rightarrow> char" where
  "py_lower_char c =
     (let n = (of_char c :: nat)
      in if (65 \<le> n \<and> n \<le> 90) \<or> (192 \<le> n \<and> n \<le> 222 \<and> n \<noteq> 215) then char_of (n + 32)
         else c)"

definition lower :: "string \<Rightarrow> string" where
  "lower s = map py_lower_char s"

text \<open>The two module constants of image_processing.py (lines 5 to 15).\<close>

definition ALLOWED_CONTENT_TYPES :: "string set" where
  "ALLOWED_CONTENT_TYPES =
     {''image/jpeg'', ''image/jpg'', ''image/png'', ''image/webp'', ''image/bmp'', ''image/tiff''}"

definition MIME_ALIASES :: "(string \<times> string) list" where
  "MIME_ALIASES = [(''image/jpg'', ''image/jpeg'')]"

text \<open>\<open>normalize_image_mime_type\<close> (lines 24 to 26).\<close>

definition normalize_image_mime_type :: "string \<Rightarrow> string" where
  "normalize_image_mime_type content_type =
     (let normalized = lower (strip content_type)
      in case map_of MIME_ALIASES normalized of Some v \<Rightarrow> v | None \<Rightarrow> normalized)"

text \<open>
  \<open>base64.b64encode(image_bytes).decode("ascii")\<close>: three bytes give four characters of
  the standard alphabet, and a last group of one or two bytes is padded with \<open>=\<close>.
  A byte is a \<open>char\<close>.
\<close>

definition b64_char :: "nat \<Rightarrow> char" where
  "b64_char n =
     ''ABCDEFGHIJKLMNOPQRSTUVWXYZabcdefghijklmnopqrstuvwxyz0123456789+/'' ! n"

fun b64encode :: "char list \<Rightarrow> string" where
  "b64encode [] = []"
| "b64encode [a] =
     (let x = (of_char a :: nat)
      in [b64_char (x div 4), b64_char ((x mod 4) * 16), CHR ''='', CHR ''=''])"
| "b64encode [a, b] =
     (let x = (of_char a :: nat); y = (of_char b :: nat)
      in [b64_char (x div 4), b64_char ((x mod 4) * 16 + y div 16),
          b64_char ((y mod 16) * 4), CHR ''=''])"
| "b64encode (a # b # c # rest) =
     (let x = (of_char a :: nat); y = (of_char b :: nat); z = (of_char c :: nat)
      in [b64_char (x div 4), b64_char ((x mod 4) * 16 + y div 16),
          b64_char ((y mod 16) * 4 + z div 64), b64_char (z mod 64)] @ b64encode rest)"

text \<open>\<open>to_data_url\<close> (lines 18 to 21).\<close>

definition to_data_url :: "char list \<Rightarrow> string \<Rightarrow> string" where
  "to_data_url image_bytes mime_type =
     ''data:'' @ normalize_image_mime_type mime_type @ '';base64,'' @ b64encode image_bytes"

text \<open>
  Modelled from the spec: the request orchestrator's check of the upload's content
  type. The module that receives the upload and calls the encoder and the gateway
  client is not among the sources; the spec says of it that the MIME type is "drawn
  from an allow-list", "case-insensitive, trimmed", and that "an unrecognized MIME is
  rejected before reaching the gateway client". An upload is either rejected or
  handed to the gateway client as a data URL.
\<close>

datatype upload_outcome = Rejected | Forwarded string

definition admit_upload :: "char list \<Rightarrow> string \<Rightarrow> upload_outcome" where
  "admit_upload image_bytes content_type =
     (if normalize_image_mime_type content_type \<in> ALLOWED_CONTENT_TYPES
      then Forwarded (to_data_url image_bytes content_type)
      else Rejected)"

section \<open>Shapes of a response\<close>

text \<open>
  Names for the parts of a response that the properties below speak of: the value under
  a key of an object, the first element of a non-empty \<open>"choices"\<close> list, and the
  \<open>"text"\<close> strings of the objects of a content list, in order.
\<close>

definition field :: "json \<Rightarrow> string \<Rightarrow> json option" where
  "field v key = (case v of JObj kv \<Rightarrow> map_of kv key | _ \<Rightarrow> None)"

definition has_string_field :: "json \<Rightarrow> string \<Rightarrow> bool" where
  "has_string_field v key = (case field v key of Some (JStr _) \<Rightarrow> True | _ \<Rightarrow> False)"

definition first_choice_of :: "json \<Rightarrow> json option" where
  "first_choice_of r =
     (case field r ''choices'' of Some (JArr (c # _)) \<Rightarrow> Some c | _ \<Rightarrow> None)"

fun text_fields :: "json list \<Rightarrow> string list" where
  "text_fields [] = []"
| "text_fields (item # rest) =
     (case item of
        JObj kv \<Rightarrow>
          (case map_of kv ''text'' of
             Some (JStr s) \<Rightarrow> s # text_fields rest
           | _ \<Rightarrow> text_fields rest)
      | _ \<Rightarrow> text_fields rest)"

text \<open>
  A content that is neither a string nor a list whose joined \<open>"text"\<close> strings are
  non-blank.
\<close>

definition yields_no_text :: "json \<Rightarrow> bool" where
  "yields_no_text content =
     (case content of
        JStr _ \<Rightarrow> False
      | JArr items \<Rightarrow> strip (join newline (text_fields items)) = []
      | _ \<Rightarrow> True)"

text \<open>The content that lines 191 to 193 compute from the first element of \<open>choices\<close>.\<close>

definition content_or_default :: "json \<Rightarrow> json" where
  "content_or_default c =
     (case field c ''message'' of
        Some (JObj mkv) \<Rightarrow> get_or mkv ''content'' (JStr [])
      | _ \<Rightarrow> JStr [])"

text \<open>An outcome that is a returned string or a raised \<open>VLLMError\<close>.\<close>

definition gateway_outcome :: "exn + string \<Rightarrow> bool" where
  "gateway_outcome x = (case x of Inr _ \<Rightarrow> True | Inl (Raised _) \<Rightarrow> True | Inl _ \<Rightarrow> False)"

text \<open>A string with no whitespace at either end.\<close>

definition trimmed :: "string \<Rightarrow> bool" where
  "trimmed s = (s = [] \<or> (\<not> py_isspace (hd s) \<and> \<not> py_isspace (last s)))"

text \<open>The error-class tag of a raised \<open>VLLMError\<close>.\<close>

definition error_class_of :: "exn + 'a \<Rightarrow> string option" where
  "error_class_of x =
     (case x of Inl (Raised e) \<Rightarrow> Some (backend_error_class e) | _ \<Rightarrow> None)"

text \<open>
  The \<open>"content"\<close> of the \<open>"message"\<close> of the first choice, where the response has
  all three; and whether the first choice has a string under \<open>"text"\<close>.
\<close>

definition message_content :: "json \<Rightarrow> json option" where
  "message_content r =
     (case first_choice_of r of
        Some c \<Rightarrow> (case field c ''message'' of Some m \<Rightarrow> field m ''content'' | None \<Rightarrow> None)
      | None \<Rightarrow> None)"

definition choice_has_text :: "json \<Rightarrow> bool" where
  "choice_has_text r =
     (case first_choice_of r of Some c \<Rightarrow> has_string_field c ''text'' | None \<Rightarrow> False)"

text \<open>
  The error-message policy in the spec's words: the non-blank string under \<open>"message"\<close>
  of an object, trimmed; and that of the object under \<open>"error"\<close>.
\<close>

definition nonblank_message :: "json \<Rightarrow> string option" where
  "nonblank_message v =
     (case field v ''message'' of
        Some (JStr m) \<Rightarrow> if strip m \<noteq> [] then Some (strip m) else None
      | _ \<Rightarrow> None)"

definition error_object_message :: "json \<Rightarrow> string option" where
  "error_object_message body =
     (case field body ''error'' of Some e \<Rightarrow> nonblank_message e | None \<Rightarrow> None)"

section \<open>Runs of the readiness prober\<close>

text \<open>
  A probe that ends the wait: a response with status 200. And the effects of \<open>n\<close>
  failed attempts: each is a GET followed by a sleep of one second.
\<close>

definition ready :: "get_outcome \<Rightarrow> bool" where
  "ready out =
     (case out of
        GetResponse response \<Rightarrow> status_code response = 200
      | GetException _ _ \<Rightarrow> False)"

definition failed_attempts :: "nat \<Rightarrow> effect list" where
  "failed_attempts n = concat (replicate n [Probe, Sleep 1])"

section \<open>Example inputs\<close>

text \<open>
  Settings, a response with status 200 and a given parsed body, and the error response
  of the spec's example: status 500 with the body \<open>{"error":{"message":"GPU OOM"}}\<close>.
\<close>

definition demo_settings :: settings where
  "demo_settings =
     \<lparr>resolved_vllm_model_id = ''ocr-model'', ocr_prompt = ''Extract the text.'',
      max_tokens = 1024, temperature = (0, 0), top_p = (1, 0), top_k = 1,
      vllm_startup_timeout_seconds = 3\<rparr>"

definition ok_response :: "json \<Rightarrow> response" where
  "ok_response body = \<lparr>status_code = 200, resp_text = [], resp_json = Inr body\<rparr>"

definition gpu_oom :: response where
  "gpu_oom =
     \<lparr>status_code = 500, resp_text = ''{\"error\":{\"message\":\"GPU OOM\"}}'',
      resp_json = Inr (JObj [(''error'', JObj [(''message'', JStr ''GPU OOM'')])])\<rparr>"

text \<open>
  A float addition for sums between 2 and 4, where neighbouring doubles are \<open>2^-51\<close>
  apart: the exact sum rounded to the nearest multiple of \<open>2^-51\<close>.
\<close>

definition grid_add :: "rat \<Rightarrow> rat \<Rightarrow> rat" where
  "grid_add a b = of_int (round ((a + b) * 2 ^ 51)) / 2 ^ 51"

text \<open>
  The doubles that Python writes \<open>0.003\<close>, \<open>3.015\<close>, \<open>1.004\<close>, \<open>2.009\<close> and \<open>3.018\<close>.
\<close>

definition d0_003 :: rat where "d0_003 = 3458764513820541 / 2 ^ 60"
definition d3_015 :: rat where "d3_015 = 6789176438261023 / 2 ^ 51"
definition d1_004 :: rat where "d1_004 = 2260807012939989 / 2 ^ 51"
definition d2_009 :: rat where "d2_009 = 4523865825693663 / 2 ^ 51"
definition d3_018 :: rat where "d3_018 = 3397965918851039 / 2 ^ 50"

text \<open>The next double after it, which Python writes \<open>3.0180000000000002\<close>.\<close>

definition d3_018_next :: rat where "d3_018_next = 6795931837702079 / 2 ^ 51"

text \<open>
  A clock that reads \<open>0.003\<close> on line 80 and at the first loop test, then \<open>1.004\<close>,
  \<open>2.009\<close>, \<open>3.018\<close>, and \<open>4.5\<close> from then on. A backend that answers 503 three times
  and 200 from then on, and one that answers 503 for ever.
\<close>

definition slow_clock :: "nat \<Rightarrow> rat" where
  "slow_clock k =
     (if k \<le> 1 then d0_003
      else if k = 2 then d1_004
      else if k = 3 then d2_009
      else if k = 4 then d3_018
      else 9 / 2)"

definition loading :: get_outcome where
  "loading =
     GetResponse \<lparr>status_code = 503, resp_text = ''loading'', resp_json = Inl ([], [])\<rparr>"

definition warming_backend :: "nat \<Rightarrow> get_outcome" where
  "warming_backend k =
     (if k < 3 then loading
      else GetResponse \<lparr>status_code = 200, resp_text = ''{}'', resp_json = Inr (JObj [])\<rparr>)"

definition down_backend :: "nat \<Rightarrow> get_outcome" where
  "down_backend k = loading"

section \<open>Properties of the content extractor\<close>

lemmas py_ops = py_get_def get_or_def isinstance_list_def isinstance_dict_def py_truthy_def
  py_item0_def

lemma collect_parts_eq: "collect_parts items parts = Inr (parts @ text_fields items)"
proof (induction items arbitrary: parts)
  case Nil
  show ?case by simp
next
  case (Cons item rest)
  show ?case
  proof (cases item)
    case (JObj kv)
    then show ?thesis
      by (cases "map_of kv ''text''")
         (simp_all add: Cons.IH py_ops split: json.splits)
  qed (simp_all add: Cons.IH isinstance_dict_def)
qed

lemma text_fallback_not_dict:
  "\<not> isinstance_dict c \<Longrightarrow> text_fallback c = Inl (Raised (new_error VLLMError
     ''vLLM returned an unsupported completion content format.''))"
  by (simp add: text_fallback_def)

lemma text_fallback_dict:
  "text_fallback (JObj ckv) =
     (case map_of ckv ''text'' of
        Some (JStr t) \<Rightarrow> Inr (strip t)
      | _ \<Rightarrow> Inl (Raised (new_error VLLMError
          ''vLLM returned an unsupported completion content format.'')))"
  by (simp add: text_fallback_def py_ops split: option.splits json.splits)

lemma text_fallback_gateway: "gateway_outcome (text_fallback c)"
  by (cases c)
     (simp_all add: text_fallback_dict text_fallback_not_dict isinstance_dict_def
        gateway_outcome_def split: option.splits json.splits)

lemma from_content_list:
  "from_content c (JArr items) =
     (if strip (join newline (text_fields items)) \<noteq> []
      then Inr (strip (join newline (text_fields items))) else text_fallback c)"
  by (simp add: from_content_def collect_parts_eq Let_def)

lemma from_content_gateway: "gateway_outcome (from_content c v)"
  using text_fallback_gateway [of c]
  by (cases v) (simp_all add: from_content_list, simp_all add: from_content_def gateway_outcome_def)

lemma extract_choices:
  assumes "map_of kv ''choices'' = Some (JArr (c # cs))"
  shows "extract_message_content (JObj kv) =
         from_content (if isinstance_dict c then c else JObj []) (content_or_default c)"
proof (cases c)
  case (JObj ckv)
  show ?thesis
  proof (cases "map_of ckv ''message''")
    case None
    with JObj assms show ?thesis
      by (simp add: extract_message_content_def py_ops content_or_default_def field_def)
  next
    case (Some m)
    with JObj assms show ?thesis
      by (cases m)
         (simp_all add: extract_message_content_def py_ops content_or_default_def field_def)
  qed
qed (use assms in \<open>simp_all add: extract_message_content_def py_ops content_or_default_def
       field_def\<close>)

lemma extract_no_choices:
  assumes "case map_of kv ''choices'' of None \<Rightarrow> True
           | Some v \<Rightarrow> \<not> isinstance_list v \<or> v = JArr []"
  shows "extract_message_content (JObj kv) =
         Inl (Raised (new_error VLLMError
           ''vLLM response did not include any completion choices.''))"
proof (cases "map_of kv ''choices''")
  case None
  then show ?thesis by (simp add: extract_message_content_def py_ops)
next
  case (Some v)
  with assms show ?thesis
    by (cases v) (auto simp: extract_message_content_def py_ops)
qed

lemma choices_cases:
  obtains "case map_of kv ''choices'' of None \<Rightarrow> True
           | Some v \<Rightarrow> \<not> isinstance_list v \<or> v = JArr []"
  | c cs where "map_of kv ''choices'' = Some (JArr (c # cs))"
proof (cases "map_of kv ''choices''")
  case None
  then show ?thesis using that(1) by simp
next
  case (Some v)
  show ?thesis
  proof (cases v)
    case (JArr xs)
    with Some show ?thesis using that by (cases xs) (simp_all add: isinstance_list_def)
  qed (use Some that(1) in \<open>simp_all add: isinstance_list_def\<close>)
qed

lemma content_present:
  assumes "field c ''message'' = Some m" and "field m ''content'' = Some content"
  shows "isinstance_dict c" and "content_or_default c = content"
  using assms
  by (cases c; cases m; simp add: field_def isinstance_dict_def content_or_default_def get_or_def)+

lemma strip_trimmed: "trimmed (strip s)"
proof -
  define u where "u = dropWhile py_isspace s"
  define v where "v = dropWhile py_isspace (rev u)"
  show ?thesis
  proof (cases "v = []")
    case True
    then show ?thesis by (simp add: strip_def trimmed_def u_def v_def)
  next
    case False
    then have hd_v: "\<not> py_isspace (hd v)"
      unfolding v_def by (rule hd_dropWhile)
    from False have "u \<noteq> []" by (auto simp: v_def)
    then have hd_u: "\<not> py_isspace (hd u)"
      unfolding u_def by (rule hd_dropWhile)
    from \<open>u \<noteq> []\<close> have "hd u \<in> set (rev u)" by simp
    then have "last v = last (rev u)"
      unfolding v_def using hd_u by (rule dropWhile_last)
    with \<open>u \<noteq> []\<close> have last_v: "last v = hd u" by (simp add: last_rev)
    from False have "hd (rev v) = last v" and "last (rev v) = hd v"
      by (simp_all add: hd_rev last_rev)
    with False hd_v hd_u last_v show ?thesis
      by (simp add: strip_def trimmed_def u_def [symmetric] v_def [symmetric])
  qed
qed




text \<open>
  Claim C10, amended. For every parsed JSON object handed to the content extractor,
  whatever the shape of its parts, the extractor returns a string or raises a
  \<open>VLLMError\<close>; it raises no other error.
\<close>

theorem extractor_total_on_objects: "gateway_outcome (extract_message_content (JObj kv))"
proof (cases kv rule: choices_cases)
  case 1
  then show ?thesis by (simp add: extract_no_choices gateway_outcome_def)
next
  case (2 c cs)
  then show ?thesis by (simp add: extract_choices from_content_gateway)
qed

text \<open>A first choice that is a number, not an object: the extractor returns a string.\<close>

theorem extractor_total_on_objects_witness:
  "gateway_outcome (extract_message_content (JObj [(''choices'', JArr [JInt 5])])) \<and>
   extract_message_content (JObj [(''choices'', JArr [JInt 5])]) = Inr []"
  using extractor_total_on_objects [of "[(''choices'', JArr [JInt 5])]"]
  by (simp add: extract_message_content_def py_ops from_content_def strip_def)

text \<open>
  A parsed JSON value that is not an object, here the empty array: \<open>result.get\<close> raises
  \<open>AttributeError\<close>.
\<close>

theorem extractor_not_total_on_arrays:
  "extract_message_content (JArr []) = Inl AttributeError \<and>
   \<not> gateway_outcome (extract_message_content (JArr []))"
  by (simp add: extract_message_content_def py_get_def gateway_outcome_def)

text \<open>
  Claim C3, at the response \<open>{"choices":[{"text":"hi"}]}\<close>, whose first choice has no
  \<open>"message"\<close>: the content defaults to the empty string, which is returned, and the
  choice's \<open>"text"\<close> is never read.
\<close>

theorem absent_message_skips_text:
  "extract_message_content (JObj [(''choices'', JArr [JObj [(''text'', JStr ''hi'')]])]) = Inr []"
  by (simp add: extract_message_content_def py_ops from_content_def strip_def)

text \<open>So the result is not the choice's text \<open>"hi"\<close>.\<close>

theorem absent_message_skips_text_witness:
  "extract_message_content (JObj [(''choices'', JArr [JObj [(''text'', JStr ''hi'')]])])
     \<noteq> Inr ''hi''"
  using absent_message_skips_text by simp

lemma text_fallback_no_text:
  assumes "\<not> has_string_field c ''text''"
  shows "text_fallback c = Inl (Raised (new_error VLLMError
     ''vLLM returned an unsupported completion content format.''))"
proof (cases c)
  case (JObj ckv)
  with assms show ?thesis
    by (simp add: text_fallback_dict has_string_field_def field_def split: option.splits json.splits)
qed (simp_all add: text_fallback_not_dict isinstance_dict_def)

text \<open>
  Claim C2, amended. For every parsed JSON object in which \<open>"choices"\<close> is missing,
  not a list or an empty list, and for every one whose first choice has a message
  content that is neither a string nor a list yielding non-blank text, and has no
  string \<open>"text"\<close>, extraction raises a \<open>VLLMError\<close> that carries the default
  error-class tag \<open>"vllm_error"\<close> and no backend status code.
\<close>

theorem no_text_raises_untagged_error:
  "((case map_of kv ''choices'' of None \<Rightarrow> True
     | Some v \<Rightarrow> \<not> isinstance_list v \<or> v = JArr []) \<longrightarrow>
      extract_message_content (JObj kv) =
        Inl (Raised \<lparr>exc_type = VLLMError,
          message = ''vLLM response did not include any completion choices.'',
          detail = None, backend_status_code = None,
          backend_error_class = ''vllm_error'', backend_latency_ms = None\<rparr>)) \<and>
   (map_of kv ''choices'' = Some (JArr (c # cs)) \<and> field c ''message'' = Some m \<and>
    field m ''content'' = Some content \<and> yields_no_text content \<and>
    \<not> has_string_field c ''text'' \<longrightarrow>
      extract_message_content (JObj kv) =
        Inl (Raised \<lparr>exc_type = VLLMError,
          message = ''vLLM returned an unsupported completion content format.'',
          detail = None, backend_status_code = None,
          backend_error_class = ''vllm_error'', backend_latency_ms = None\<rparr>))"
proof (intro conjI impI)
  assume "case map_of kv ''choices'' of None \<Rightarrow> True
          | Some v \<Rightarrow> \<not> isinstance_list v \<or> v = JArr []"
  then show "extract_message_content (JObj kv) =
        Inl (Raised \<lparr>exc_type = VLLMError,
          message = ''vLLM response did not include any completion choices.'',
          detail = None, backend_status_code = None,
          backend_error_class = ''vllm_error'', backend_latency_ms = None\<rparr>)"
    by (simp add: extract_no_choices new_error_def)
next
  assume h: "map_of kv ''choices'' = Some (JArr (c # cs)) \<and> field c ''message'' = Some m \<and>
    field m ''content'' = Some content \<and> yields_no_text content \<and>
    \<not> has_string_field c ''text''"
  then have "isinstance_dict c" and "content_or_default c = content"
    using content_present by blast+
  with h have e: "extract_message_content (JObj kv) = from_content c content"
    by (simp add: extract_choices)
  from h have t: "text_fallback c = Inl (Raised (new_error VLLMError
     ''vLLM returned an unsupported completion content format.''))"
    by (simp add: text_fallback_no_text)
  from h have "from_content c content = text_fallback c"
    by (cases content) (simp_all add: from_content_list yields_no_text_def, simp_all add: from_content_def)
  with e t show "extract_message_content (JObj kv) =
        Inl (Raised \<lparr>exc_type = VLLMError,
          message = ''vLLM returned an unsupported completion content format.'',
          detail = None, backend_status_code = None,
          backend_error_class = ''vllm_error'', backend_latency_ms = None\<rparr>)"
    by (simp add: new_error_def)
qed

text \<open>The responses \<open>{}\<close> and \<open>{"choices":[{"message":{"content":null}}]}\<close>.\<close>

theorem no_text_raises_untagged_error_witness:
  "extract_message_content (JObj []) =
     Inl (Raised \<lparr>exc_type = VLLMError,
       message = ''vLLM response did not include any completion choices.'',
       detail = None, backend_status_code = None,
       backend_error_class = ''vllm_error'', backend_latency_ms = None\<rparr>) \<and>
   extract_message_content
     (JObj [(''choices'', JArr [JObj [(''message'', JObj [(''content'', JNull)])]])]) =
     Inl (Raised \<lparr>exc_type = VLLMError,
       message = ''vLLM returned an unsupported completion content format.'',
       detail = None, backend_status_code = None,
       backend_error_class = ''vllm_error'', backend_latency_ms = None\<rparr>)"
  using no_text_raises_untagged_error [of "[]"]
    no_text_raises_untagged_error
      [of "[(''choices'', JArr [JObj [(''message'', JObj [(''content'', JNull)])]])]"
          "JObj [(''message'', JObj [(''content'', JNull)])]" "[]"
          "JObj [(''content'', JNull)]" JNull]
  by (simp add: field_def yields_no_text_def has_string_field_def)

text \<open>
  The responses \<open>{}\<close> and \<open>{"choices":[]}\<close>: the tag of the error is \<open>"vllm_error"\<close>, not
  \<open>"malformed_response"\<close>.
\<close>

theorem no_choices_tag_is_not_malformed_response:
  "error_class_of (extract_message_content (JObj [])) = Some ''vllm_error'' \<and>
   error_class_of (extract_message_content (JObj [(''choices'', JArr [])])) = Some ''vllm_error'' \<and>
   error_class_of (extract_message_content (JObj [])) \<noteq> Some ''malformed_response''"
  by (simp add: extract_message_content_def py_ops error_class_of_def new_error_def)

lemma text_fallback_trimmed: "text_fallback c = Inr s \<Longrightarrow> trimmed s"
  by (cases c)
     (auto simp: text_fallback_dict text_fallback_not_dict isinstance_dict_def strip_trimmed
        split: option.splits json.splits)

lemma from_content_trimmed:
  assumes "from_content c v = Inr s"
  shows "trimmed s"
proof (cases v)
  case (JStr t)
  with assms show ?thesis by (auto simp: from_content_def strip_trimmed)
next
  case (JArr items)
  with assms show ?thesis
    by (auto simp: from_content_list strip_trimmed text_fallback_trimmed split: if_splits)
qed (use assms in \<open>simp_all add: from_content_def text_fallback_trimmed\<close>)

lemma extract_trimmed:
  assumes "extract_message_content r = Inr s"
  shows "trimmed s"
proof (cases r)
  case (JObj kv)
  show ?thesis
  proof (cases kv rule: choices_cases)
    case 1
    with assms JObj show ?thesis by (simp add: extract_no_choices)
  next
    case (2 c cs)
    with assms JObj show ?thesis by (auto simp: extract_choices dest: from_content_trimmed)
  qed
qed (use assms in \<open>simp_all add: extract_message_content_def py_get_def\<close>)

lemma extract_list_nonempty:
  assumes "extract_message_content r = Inr s"
    and "message_content r = Some (JArr items)"
    and "\<not> choice_has_text r"
  shows "s \<noteq> []"
proof -
  from assms(2) obtain c where c: "first_choice_of r = Some c"
    by (auto simp: message_content_def split: option.splits)
  with assms(2) obtain m where m: "field c ''message'' = Some m" "field m ''content'' = Some (JArr items)"
    by (auto simp: message_content_def split: option.splits)
  from c obtain kv cs where r: "r = JObj kv" "map_of kv ''choices'' = Some (JArr (c # cs))"
    by (cases r) (auto simp: first_choice_of_def field_def split: option.splits json.splits list.splits)
  from m have "isinstance_dict c" and "content_or_default c = JArr items"
    by (rule content_present)+
  with r have e: "extract_message_content r = from_content c (JArr items)"
    by (simp add: extract_choices)
  from assms(3) c have "text_fallback c = Inl (Raised (new_error VLLMError
     ''vLLM returned an unsupported completion content format.''))"
    by (simp add: choice_has_text_def text_fallback_no_text)
  with e assms(1) show ?thesis
    by (auto simp: from_content_list split: if_splits)
qed

lemma run_ocr_Inr:
  assumes "run_ocr st client_post url = Inr s"
  obtains data where
    "chat_completion client_post (build_payload st (ocr_prompt st) url (max_tokens st)) = Inr data"
    and "extract_message_content data = Inr s"
  using assms by (auto simp: run_ocr_def split: sum.splits)

text \<open>
  Claim C1, amended. A successful call to \<open>run_ocr\<close> returns the text the extractor
  found in the backend's parsed response, with no whitespace at either end. The text
  may be empty; it is non-empty when the first choice's message content is a list and
  the choice has no string \<open>"text"\<close>.
\<close>

theorem run_ocr_returns_trimmed_text:
  assumes "run_ocr st client_post url = Inr s"
  shows "\<exists>data.
           chat_completion client_post (build_payload st (ocr_prompt st) url (max_tokens st))
             = Inr data \<and>
           extract_message_content data = Inr s \<and> trimmed s \<and>
           (\<forall>items. message_content data = Some (JArr items) \<and> \<not> choice_has_text data
              \<longrightarrow> s \<noteq> [])"
proof -
  from assms obtain data where
    d: "chat_completion client_post (build_payload st (ocr_prompt st) url (max_tokens st)) = Inr data"
       "extract_message_content data = Inr s"
    by (rule run_ocr_Inr)
  from d(2) have "trimmed s" by (rule extract_trimmed)
  moreover from d(2) have "\<forall>items. message_content data = Some (JArr items) \<and> \<not> choice_has_text data
              \<longrightarrow> s \<noteq> []"
    by (auto dest: extract_list_nonempty)
  ultimately show ?thesis using d by blast
qed

text \<open>
  A content list whose two texts carry outer blanks: the call returns \<open>"A\nB"\<close>.
\<close>

theorem run_ocr_returns_trimmed_text_witness:
  "run_ocr demo_settings
     (\<lambda>payload. (PostResponse (ok_response
        (JObj [(''choices'', JArr [JObj [(''message'', JObj [(''content'',
           JArr [JObj [(''text'', JStr '' A'')], JObj [(''text'', JStr ''B '')]])])]])])), 12))
     ''data:image/png;base64,AAAA'' = Inr (''A'' @ [CHR 0x0A] @ ''B'') \<and>
   trimmed (''A'' @ [CHR 0x0A] @ ''B'')"
proof -
  have r: "run_ocr demo_settings
     (\<lambda>payload. (PostResponse (ok_response
        (JObj [(''choices'', JArr [JObj [(''message'', JObj [(''content'',
           JArr [JObj [(''text'', JStr '' A'')], JObj [(''text'', JStr ''B '')]])])]])])), 12))
     ''data:image/png;base64,AAAA'' = Inr (''A'' @ [CHR 0x0A] @ ''B'')"
    by (simp add: run_ocr_def chat_completion_def ok_response_def extract_message_content_def
        py_ops from_content_def strip_def py_isspace_def newline_def)
  from run_ocr_returns_trimmed_text [OF r] r show ?thesis by blast
qed

text \<open>
  The response \<open>{"choices":[{"message":{"content":""}}]}\<close> with status 200: the call
  succeeds and returns the empty string.
\<close>

theorem run_ocr_empty_success:
  "run_ocr demo_settings
     (\<lambda>payload. (PostResponse (ok_response
        (JObj [(''choices'', JArr [JObj [(''message'', JObj [(''content'', JStr [])])]])])), 12))
     ''data:image/png;base64,AAAA'' = Inr []"
  by (simp add: run_ocr_def chat_completion_def ok_response_def extract_message_content_def
      py_ops from_content_def strip_def)

section \<open>Properties of the HTTP layer\<close>

text \<open>
  Claim C5, amended. For every HTTP response with status at least 400, the completion
  call raises a \<open>VLLMError\<close> tagged \<open>"vllm_http_error"\<close> that carries the backend status
  code, the measured latency, and as its detail the message that the error-message
  extractor gives for the response.
\<close>

theorem http_error_is_tagged_vllm_http_error:
  assumes "client_post payload = (PostResponse response, latency_ms)"
    and "status_code response \<ge> 400"
  shows "chat_completion client_post payload =
           Inl (Raised \<lparr>exc_type = VLLMError,
             message = ''vLLM returned an inference error.'',
             detail = Some (extract_error_message response),
             backend_status_code = Some (status_code response),
             backend_error_class = ''vllm_http_error'',
             backend_latency_ms = Some latency_ms\<rparr>)"
  using assms by (simp add: chat_completion_def new_error_def)

text \<open>
  The spec's example: the error carries the detail \<open>"GPU OOM"\<close> and the status code 500.
\<close>

theorem http_error_is_tagged_vllm_http_error_witness:
  "chat_completion (\<lambda>payload. (PostResponse gpu_oom, 37)) JNull =
     Inl (Raised \<lparr>exc_type = VLLMError,
       message = ''vLLM returned an inference error.'',
       detail = Some ''GPU OOM'',
       backend_status_code = Some 500,
       backend_error_class = ''vllm_http_error'',
       backend_latency_ms = Some 37\<rparr>)"
proof -
  have m: "extract_error_message gpu_oom = ''GPU OOM''"
    by (simp add: extract_error_message_def gpu_oom_def get_or_def nonblank_stripped_def
        strip_def py_isspace_def)
  have "(\<lambda>payload. (PostResponse gpu_oom, 37)) JNull = (PostResponse gpu_oom, (37::int))"
    by simp
  moreover have "status_code gpu_oom \<ge> 400" by (simp add: gpu_oom_def)
  ultimately have "chat_completion (\<lambda>payload. (PostResponse gpu_oom, 37)) JNull =
           Inl (Raised \<lparr>exc_type = VLLMError,
             message = ''vLLM returned an inference error.'',
             detail = Some (extract_error_message gpu_oom),
             backend_status_code = Some (status_code gpu_oom),
             backend_error_class = ''vllm_http_error'',
             backend_latency_ms = Some 37\<rparr>)"
    by (rule http_error_is_tagged_vllm_http_error)
  with m show ?thesis by (simp add: gpu_oom_def)
qed

text \<open>On the same response the tag is \<open>"vllm_http_error"\<close>, not \<open>"http_error"\<close>.\<close>

theorem http_error_tag_is_not_http_error:
  "error_class_of (chat_completion (\<lambda>payload. (PostResponse gpu_oom, 37)) JNull)
     = Some ''vllm_http_error'' \<and>
   error_class_of (chat_completion (\<lambda>payload. (PostResponse gpu_oom, 37)) JNull)
     \<noteq> Some ''http_error''"
  by (simp add: chat_completion_def gpu_oom_def error_class_of_def new_error_def)

lemma nonblank_stripped_get_or:
  "nonblank_stripped (get_or kv ''message'' JNull) = nonblank_message (JObj kv)"
  by (simp add: nonblank_stripped_def nonblank_message_def get_or_def field_def
      split: option.splits json.splits)

lemma nonblank_message_not_dict: "\<not> isinstance_dict v \<Longrightarrow> nonblank_message v = None"
  by (cases v) (simp_all add: nonblank_message_def field_def isinstance_dict_def)

lemma error_object_message_obj:
  "error_object_message (JObj kv) =
     (case get_or kv ''error'' JNull of
        JObj ekv \<Rightarrow> nonblank_stripped (get_or ekv ''message'' JNull)
      | _ \<Rightarrow> None)"
proof (cases "map_of kv ''error''")
  case None
  then show ?thesis by (simp add: error_object_message_def field_def get_or_def)
next
  case (Some e)
  then have g: "get_or kv ''error'' JNull = e" and f: "field (JObj kv) ''error'' = Some e"
    by (simp_all add: get_or_def field_def)
  show ?thesis
  proof (cases e)
    case (JObj ekv)
    with g f show ?thesis
      by (simp add: error_object_message_def nonblank_stripped_get_or)
  qed (use g f in \<open>simp_all add: error_object_message_def nonblank_message_not_dict
         isinstance_dict_def\<close>)
qed

text \<open>
  Claim C6. The error-message extractor returns the first 500 characters of the raw
  text when the body does not parse as JSON. When it parses, the extractor returns the
  non-blank string \<open>"message"\<close> of the object under \<open>"error"\<close>, trimmed, if there is
  one; else the body's own non-blank string \<open>"message"\<close>, trimmed, if there is one;
  else the first 500 characters of the raw text.
\<close>

theorem error_message_policy:
  "(resp_json r = Inl exc \<longrightarrow> extract_error_message r = take 500 (resp_text r)) \<and>
   (resp_json r = Inr body \<longrightarrow>
      extract_error_message r =
        (case error_object_message body of
           Some m \<Rightarrow> m
         | None \<Rightarrow>
             (case nonblank_message body of
                Some m \<Rightarrow> m
              | None \<Rightarrow> take 500 (resp_text r))))"
proof (intro conjI impI)
  assume "resp_json r = Inl exc"
  then show "extract_error_message r = take 500 (resp_text r)"
    by (simp add: extract_error_message_def)
next
  assume b: "resp_json r = Inr body"
  show "extract_error_message r =
        (case error_object_message body of
           Some m \<Rightarrow> m
         | None \<Rightarrow>
             (case nonblank_message body of
                Some m \<Rightarrow> m
              | None \<Rightarrow> take 500 (resp_text r)))"
  proof (cases body)
    case (JObj kv)
    from b JObj have "extract_error_message r =
        (case error_object_message (JObj kv) of
           Some m \<Rightarrow> m
         | None \<Rightarrow>
             (case nonblank_message (JObj kv) of
                Some m \<Rightarrow> m
              | None \<Rightarrow> take 500 (resp_text r)))"
      by (simp add: extract_error_message_def error_object_message_obj nonblank_stripped_get_or
          split: option.splits)
    then show ?thesis unfolding JObj .
  qed (use b in \<open>simp_all add: extract_error_message_def error_object_message_def
         nonblank_message_def field_def\<close>)
qed

text \<open>
  The spec's example, a body that is not JSON, and a body whose \<open>"error"\<close> message is
  blank, so that the top-level \<open>"message"\<close> is taken.
\<close>

theorem error_message_policy_witness:
  "extract_error_message gpu_oom = ''GPU OOM'' \<and>
   extract_error_message
     \<lparr>status_code = 500, resp_text = ''<html>Bad Gateway</html>'',
      resp_json = Inl (''JSONDecodeError'', ''Expecting value'')\<rparr> = ''<html>Bad Gateway</html>'' \<and>
   extract_error_message
     \<lparr>status_code = 422, resp_text = ''{\"error\":{\"message\":\" \"},\"message\":\" bad image \"}'',
      resp_json = Inr (JObj [(''error'', JObj [(''message'', JStr '' '')]),
                             (''message'', JStr '' bad image '')])\<rparr> = ''bad image''"
  using error_message_policy [of gpu_oom _ "JObj [(''error'', JObj [(''message'', JStr ''GPU OOM'')])]"]
    error_message_policy [of "\<lparr>status_code = 500, resp_text = ''<html>Bad Gateway</html>'',
      resp_json = Inl (''JSONDecodeError'', ''Expecting value'')\<rparr>"
      "(''JSONDecodeError'', ''Expecting value'')"]
    error_message_policy [of "\<lparr>status_code = 422, resp_text = ''{\"error\":{\"message\":\" \"},\"message\":\" bad image \"}'',
      resp_json = Inr (JObj [(''error'', JObj [(''message'', JStr '' '')]),
                             (''message'', JStr '' bad image '')])\<rparr>" _
      "JObj [(''error'', JObj [(''message'', JStr '' '')]), (''message'', JStr '' bad image '')]"]
  by (simp add: gpu_oom_def error_object_message_def nonblank_message_def field_def strip_def
      py_isspace_def)

section \<open>Properties of the readiness prober\<close>

lemma wait_loop_expired:
  assumes "deadline \<le> monotonic (Suc n)"
  shows "wait_loop monotonic g deadline n le tr =
         Some (Inl (Raised (startup_timeout_error le)), tr)"
  using assms by (subst wait_loop.simps) simp

lemma wait_loop_ready:
  assumes "monotonic (Suc n) < deadline" and "ready (g n)"
  shows "wait_loop monotonic g deadline n le tr = Some (Inr (), tr @ [Probe])"
  using assms
  by (cases "g n") (subst wait_loop.simps, simp add: ready_def)+

lemma wait_loop_retry:
  assumes "monotonic (Suc n) < deadline" and "\<not> ready (g n)"
  shows "wait_loop monotonic g deadline n le tr =
         wait_loop monotonic g deadline (Suc n) (Some (probe_error (g n)))
           (tr @ [Probe, Sleep 1])"
  using assms
  by (cases "g n") (subst wait_loop.simps, simp add: ready_def)+

lemma failed_attempts_Suc: "failed_attempts (Suc n) = failed_attempts n @ [Probe, Sleep 1]"
proof -
  have "replicate (Suc n) [Probe, Sleep 1] = replicate n [Probe, Sleep 1] @ [[Probe, Sleep 1]]"
    by (simp add: replicate_append_same)
  then show ?thesis
    unfolding failed_attempts_def by (simp only: concat_append) simp
qed

lemma wait_loop_failures:
  assumes "\<forall>k<n. monotonic (Suc k) < deadline \<and> \<not> ready (g k)"
  shows "wait_loop monotonic g deadline 0 None [] =
         wait_loop monotonic g deadline n
           (if n = 0 then None else Some (probe_error (g (n - 1)))) (failed_attempts n)"
  using assms
proof (induction n)
  case 0
  show ?case by (simp add: failed_attempts_def)
next
  case (Suc n)
  then have "wait_loop monotonic g deadline 0 None [] =
         wait_loop monotonic g deadline n
           (if n = 0 then None else Some (probe_error (g (n - 1)))) (failed_attempts n)"
    by simp
  also have "\<dots> = wait_loop monotonic g deadline (Suc n) (Some (probe_error (g n)))
                     (failed_attempts n @ [Probe, Sleep 1])"
    using Suc.prems by (simp add: wait_loop_retry)
  finally show ?case by (simp add: failed_attempts_Suc)
qed

text \<open>
  Claim C7, amended. The prober's deadline is the float sum of the clock reading at
  its start and the startup timeout. While every loop test so far has read the clock
  before the deadline and no attempt has got status 200, each attempt records its
  error and is followed by a sleep of one second. If the next loop test also reads
  the clock before the deadline and the attempt gets status 200, the prober succeeds
  at once, with no further sleep. If instead the next loop test reads the deadline
  or later, the prober raises a \<open>VLLMTimeoutError\<close> tagged \<open>"vllm_startup_timeout"\<close>
  whose detail is the error of the last attempt (none if there was no attempt),
  having made exactly the attempts before it.
\<close>

theorem readiness_prober:
  assumes "\<forall>k<n. monotonic (Suc k) < float_add (monotonic 0) (vllm_startup_timeout_seconds st) \<and>
                  \<not> ready (client_get k)"
  shows "(monotonic (Suc n) < float_add (monotonic 0) (vllm_startup_timeout_seconds st) \<and>
          ready (client_get n) \<longrightarrow>
            wait_until_ready st float_add monotonic client_get =
              Some (Inr (), failed_attempts n @ [Probe])) \<and>
         (float_add (monotonic 0) (vllm_startup_timeout_seconds st) \<le> monotonic (Suc n) \<longrightarrow>
            wait_until_ready st float_add monotonic client_get =
              Some (Inl (Raised \<lparr>exc_type = VLLMTimeoutError,
                 message = ''Timed out waiting for local vLLM server readiness.'',
                 detail = (if n = 0 then None
                           else Some (probe_error (client_get (n - 1)))),
                 backend_status_code = None,
                 backend_error_class = ''vllm_startup_timeout'',
                 backend_latency_ms = None\<rparr>),
               failed_attempts n))"
proof -
  let ?d = "float_add (monotonic 0) (vllm_startup_timeout_seconds st)"
  let ?le = "if n = 0 then None else Some (probe_error (client_get (n - 1)))"
  from assms have run: "wait_until_ready st float_add monotonic client_get =
         wait_loop monotonic client_get ?d n ?le (failed_attempts n)"
    unfolding wait_until_ready_def by (rule wait_loop_failures)
  show ?thesis
  proof (intro conjI impI)
    assume "monotonic (Suc n) < ?d \<and> ready (client_get n)"
    then show "wait_until_ready st float_add monotonic client_get =
              Some (Inr (), failed_attempts n @ [Probe])"
      by (simp add: run wait_loop_ready)
  next
    assume "?d \<le> monotonic (Suc n)"
    then show "wait_until_ready st float_add monotonic client_get =
              Some (Inl (Raised \<lparr>exc_type = VLLMTimeoutError,
                 message = ''Timed out waiting for local vLLM server readiness.'',
                 detail = (if n = 0 then None
                           else Some (probe_error (client_get (n - 1)))),
                 backend_status_code = None,
                 backend_error_class = ''vllm_startup_timeout'',
                 backend_latency_ms = None\<rparr>),
               failed_attempts n)"
      by (simp add: run wait_loop_expired startup_timeout_error_def new_error_def)
  qed
qed

lemma slow_deadline: "grid_add (slow_clock 0) d3_015 = d3_018_next"
  by (simp add: grid_add_def slow_clock_def d0_003_def d3_015_def d3_018_next_def round_def
      floor_eq_iff)

lemma slow_readings:
  "slow_clock (Suc 0) < d3_018_next"
  "slow_clock (Suc (Suc 0)) < d3_018_next"
  "slow_clock (Suc (Suc (Suc 0))) < d3_018_next"
  "slow_clock (Suc (Suc (Suc (Suc 0)))) < d3_018_next"
  "d3_018_next \<le> slow_clock (Suc (Suc (Suc (Suc (Suc 0)))))"
  by (simp_all add: slow_clock_def d0_003_def d1_004_def d2_009_def d3_018_def
      d3_018_next_def)

lemma loading_error:
  "\<not> ready loading"
  "probe_error loading = ''vLLM readiness probe failed with HTTP 503: loading''"
  by (simp add: ready_def loading_def) code_simp

text \<open>
  The timeout is \<open>3.015\<close> and the clock reads \<open>0.003\<close> at the start, so the deadline is
  the double \<open>3.0180000000000002\<close>. The fourth loop test reads \<open>3.018\<close>, which is before
  the deadline: against the warming backend the fourth attempt is made and succeeds;
  against the backend that stays down the fifth loop test reads \<open>4.5\<close> and the prober
  fails after four attempts.
\<close>

theorem readiness_prober_witness:
  "wait_until_ready (demo_settings\<lparr>vllm_startup_timeout_seconds := d3_015\<rparr>)
      grid_add slow_clock warming_backend
     = Some (Inr (), [Probe, Sleep 1, Probe, Sleep 1, Probe, Sleep 1, Probe]) \<and>
   wait_until_ready (demo_settings\<lparr>vllm_startup_timeout_seconds := d3_015\<rparr>)
      grid_add slow_clock down_backend
     = Some (Inl (Raised \<lparr>exc_type = VLLMTimeoutError,
          message = ''Timed out waiting for local vLLM server readiness.'',
          detail = Some ''vLLM readiness probe failed with HTTP 503: loading'',
          backend_status_code = None,
          backend_error_class = ''vllm_startup_timeout'',
          backend_latency_ms = None\<rparr>),
        [Probe, Sleep 1, Probe, Sleep 1, Probe, Sleep 1, Probe, Sleep 1])"
proof -
  let ?st = "demo_settings\<lparr>vllm_startup_timeout_seconds := d3_015\<rparr>"
  have d: "grid_add (slow_clock 0) (vllm_startup_timeout_seconds ?st) = d3_018_next"
    by (simp add: slow_deadline)
  have a: "\<forall>k<Suc (Suc (Suc 0)).
             slow_clock (Suc k) < grid_add (slow_clock 0) (vllm_startup_timeout_seconds ?st) \<and>
             \<not> ready (warming_backend k)"
    unfolding d by (simp add: less_Suc_eq slow_readings warming_backend_def loading_error)
  have b: "\<forall>k<Suc (Suc (Suc (Suc 0))).
             slow_clock (Suc k) < grid_add (slow_clock 0) (vllm_startup_timeout_seconds ?st) \<and>
             \<not> ready (down_backend k)"
    unfolding d by (simp add: less_Suc_eq slow_readings down_backend_def loading_error)
  have r: "ready (warming_backend (Suc (Suc (Suc 0))))"
    by (simp add: warming_backend_def ready_def)
  have t: "failed_attempts (Suc (Suc (Suc 0))) = [Probe, Sleep 1, Probe, Sleep 1, Probe, Sleep 1]"
    "failed_attempts (Suc (Suc (Suc (Suc 0)))) =
       [Probe, Sleep 1, Probe, Sleep 1, Probe, Sleep 1, Probe, Sleep 1]"
    by (simp_all add: failed_attempts_def)
  from readiness_prober
         [where n = "Suc (Suc (Suc 0))" and monotonic = slow_clock and float_add = grid_add
            and st = ?st and client_get = warming_backend, OF a]
       readiness_prober
         [where n = "Suc (Suc (Suc (Suc 0)))" and monotonic = slow_clock
            and float_add = grid_add and st = ?st and client_get = down_backend, OF b]
       r
  show ?thesis
    unfolding d t by (simp add: slow_readings down_backend_def loading_error)
qed

text \<open>
  On the second of these runs the tag of the error is \<open>"vllm_startup_timeout"\<close>, not
  \<open>"startup_timeout"\<close>.
\<close>

theorem startup_timeout_tag_is_prefixed:
  "map_option (error_class_of \<circ> fst)
     (wait_until_ready (demo_settings\<lparr>vllm_startup_timeout_seconds := d3_015\<rparr>)
        grid_add slow_clock down_backend) = Some (Some ''vllm_startup_timeout'') \<and>
   map_option (error_class_of \<circ> fst)
     (wait_until_ready (demo_settings\<lparr>vllm_startup_timeout_seconds := d3_015\<rparr>)
        grid_add slow_clock down_backend) \<noteq> Some (Some ''startup_timeout'')"
proof -
  let ?st = "demo_settings\<lparr>vllm_startup_timeout_seconds := d3_015\<rparr>"
  have d: "grid_add (slow_clock 0) (vllm_startup_timeout_seconds ?st) = d3_018_next"
    by (simp add: slow_deadline)
  have "\<forall>k<Suc (Suc (Suc (Suc 0))).
             slow_clock (Suc k) < d3_018_next \<and> \<not> ready (down_backend k)"
    by (simp add: less_Suc_eq slow_readings down_backend_def loading_error)
  then have "wait_loop slow_clock down_backend (d3_018_next) 0 None [] =
         wait_loop slow_clock down_backend (d3_018_next) (Suc (Suc (Suc (Suc 0))))
           (if Suc (Suc (Suc (Suc 0))) = 0 then None
            else Some (probe_error (down_backend (Suc (Suc (Suc (Suc 0))) - 1))))
           (failed_attempts (Suc (Suc (Suc (Suc 0)))))"
    by (rule wait_loop_failures)
  then show ?thesis
    unfolding wait_until_ready_def d
    by (simp add: wait_loop_expired slow_readings error_class_of_def startup_timeout_error_def
        new_error_def)
qed

text \<open>
  Claim C8, amended. For every startup timeout that is zero or negative,
  \<open>wait_until_ready\<close> fails at once with a \<open>VLLMTimeoutError\<close> tagged
  \<open>"vllm_startup_timeout"\<close>, with no detail: it has made no GET request and has not
  slept. What is used of the platform: adding a float that is zero or negative to a
  float gives a float that is not above it, and a later reading of the monotonic
  clock is not below an earlier one.
\<close>

theorem past_deadline_fails_without_probe:
  assumes "vllm_startup_timeout_seconds st \<le> 0"
    and "\<forall>a b. b \<le> 0 \<longrightarrow> float_add a b \<le> a"
    and "monotonic 0 \<le> monotonic 1"
  shows "wait_until_ready st float_add monotonic client_get =
           Some (Inl (Raised \<lparr>exc_type = VLLMTimeoutError,
              message = ''Timed out waiting for local vLLM server readiness.'',
              detail = None,
              backend_status_code = None,
              backend_error_class = ''vllm_startup_timeout'',
              backend_latency_ms = None\<rparr>), [])"
proof -
  from assms(1,2) have "float_add (monotonic 0) (vllm_startup_timeout_seconds st) \<le> monotonic 0"
    by simp
  with assms(3) have "float_add (monotonic 0) (vllm_startup_timeout_seconds st) \<le> monotonic (Suc 0)"
    by simp
  then show ?thesis
    by (simp add: wait_until_ready_def wait_loop_expired startup_timeout_error_def new_error_def)
qed

text \<open>
  Timeouts of 0 and of a quarter second in the past, exact addition, the slow clock,
  and the backend that would answer 200 at the fourth attempt.
\<close>

theorem past_deadline_fails_without_probe_witness:
  "wait_until_ready (demo_settings\<lparr>vllm_startup_timeout_seconds := 0\<rparr>)
      (+) slow_clock warming_backend
     = Some (Inl (Raised \<lparr>exc_type = VLLMTimeoutError,
          message = ''Timed out waiting for local vLLM server readiness.'',
          detail = None,
          backend_status_code = None,
          backend_error_class = ''vllm_startup_timeout'',
          backend_latency_ms = None\<rparr>), []) \<and>
   wait_until_ready (demo_settings\<lparr>vllm_startup_timeout_seconds := - 1 / 4\<rparr>)
      (+) slow_clock warming_backend
     = Some (Inl (Raised \<lparr>exc_type = VLLMTimeoutError,
          message = ''Timed out waiting for local vLLM server readiness.'',
          detail = None,
          backend_status_code = None,
          backend_error_class = ''vllm_startup_timeout'',
          backend_latency_ms = None\<rparr>), [])"
proof -
  have m: "slow_clock 0 \<le> slow_clock 1"
    by (simp add: slow_clock_def)
  have f: "\<forall>a b::rat. b \<le> 0 \<longrightarrow> a + b \<le> a"
    by simp
  from past_deadline_fails_without_probe
         [where st = "demo_settings\<lparr>vllm_startup_timeout_seconds := 0\<rparr>"
            and float_add = "(+)" and monotonic = slow_clock and client_get = warming_backend]
       past_deadline_fails_without_probe
         [where st = "demo_settings\<lparr>vllm_startup_timeout_seconds := - 1 / 4\<rparr>"
            and float_add = "(+)" and monotonic = slow_clock and client_get = warming_backend]
       f m
  show ?thesis by simp
qed

text \<open>
  With the timeout 0 the tag of the error is \<open>"vllm_startup_timeout"\<close>, not
  \<open>"startup_timeout"\<close>.
\<close>

theorem zero_timeout_tag_is_prefixed:
  "map_option (error_class_of \<circ> fst)
     (wait_until_ready (demo_settings\<lparr>vllm_startup_timeout_seconds := 0\<rparr>)
        (+) slow_clock warming_backend) = Some (Some ''vllm_startup_timeout'') \<and>
   map_option (error_class_of \<circ> fst)
     (wait_until_ready (demo_settings\<lparr>vllm_startup_timeout_seconds := 0\<rparr>)
        (+) slow_clock warming_backend) \<noteq> Some (Some ''startup_timeout'')"
  by (simp add: wait_until_ready_def wait_loop_expired slow_clock_def error_class_of_def
      startup_timeout_error_def new_error_def)

section \<open>Properties of the image encoder\<close>

text \<open>
  Claim C9. MIME normalization trims and lowercases its input and maps \<open>image/jpg\<close> to
  \<open>image/jpeg\<close>; an upload whose normalized MIME type is outside the allow-list is
  rejected, and any other is handed on as the data URL of its bytes.
\<close>

theorem mime_normalization_and_gate:
  "normalize_image_mime_type content_type =
     (if lower (strip content_type) = ''image/jpg'' then ''image/jpeg''
      else lower (strip content_type)) \<and>
   (normalize_image_mime_type content_type \<notin> ALLOWED_CONTENT_TYPES \<longrightarrow>
      admit_upload image_bytes content_type = Rejected) \<and>
   (normalize_image_mime_type content_type \<in> ALLOWED_CONTENT_TYPES \<longrightarrow>
      admit_upload image_bytes content_type =
        Forwarded (''data:'' @ normalize_image_mime_type content_type @ '';base64,''
                     @ b64encode image_bytes))"
  by (simp add: normalize_image_mime_type_def MIME_ALIASES_def admit_upload_def
      to_data_url_def Let_def)

text \<open>
  The spec's examples: \<open>"Image/JPG"\<close> gives \<open>"image/jpeg"\<close>, \<open>"image/png"\<close> is unchanged, and
  an upload of type \<open>text/plain\<close> is rejected.
\<close>

theorem mime_normalization_and_gate_witness:
  "normalize_image_mime_type ''Image/JPG'' = ''image/jpeg'' \<and>
   normalize_image_mime_type ''image/png'' = ''image/png'' \<and>
   admit_upload ''Man'' ''text/plain'' = Rejected \<and>
   admit_upload ''Man'' '' Image/JPG '' = Forwarded ''data:image/jpeg;base64,TWFu''"
proof -
  have l: "lower (strip ''Image/JPG'') = ''image/jpg''"
    "lower (strip ''image/png'') = ''image/png''"
    "lower (strip ''text/plain'') = ''text/plain''"
    "lower (strip '' Image/JPG '') = ''image/jpg''"
    by code_simp+
  from mime_normalization_and_gate [of "''Image/JPG''" "''Man''"]
    mime_normalization_and_gate [of "''image/png''" "''Man''"]
    mime_normalization_and_gate [of "''text/plain''" "''Man''"]
    mime_normalization_and_gate [of "'' Image/JPG ''" "''Man''"]
  show ?thesis
    by (simp add: l ALLOWED_CONTENT_TYPES_def b64_char_def)
qed

end
